theory Spec2Isabelle
  imports Complex_Main "HOL-Library.Word"
begin

section \<open>The Maritime Assistant backend (server.js)\<close>

text \<open>
  The backend is one Express handler, \<^verbatim>\<open>POST /chat\<close>, over five helpers:
  \<^verbatim>\<open>geocodePlace\<close>, \<^verbatim>\<open>greatCircleNm\<close>, \<^verbatim>\<open>tryMarine\<close>,
  \<^verbatim>\<open>getMarineWeatherNear\<close> and \<^verbatim>\<open>getLandWeather\<close>. The embedding
  follows the source function by function.

  Conventions of the embedding:
  \<^item> a JavaScript string is the list of its UTF-16 code units (\<open>jstring\<close>);
  \<^item> a JavaScript number is a real number: the finite doubles, with exact arithmetic
    in place of rounding, so that the digits a double computation prints near a
    rounding tie are outside the embedding;
  \<^item> a thrown exception is the \<open>Inl\<close> of a sum, \<^verbatim>\<open>null\<close> is \<open>None\<close>;
  \<^item> every outbound \<^verbatim>\<open>fetch\<close> is appended to a trace of calls, and the answer of
    the remote service is a function of the calls made before and of the call itself,
    so that any behaviour of the three services is one value of \<open>services\<close>.
\<close>

subsection \<open>Strings\<close>

type_synonym jstring = "16 word list"

definition ascii :: "string \<Rightarrow> jstring" where
  "ascii s = map (\<lambda>c. of_nat (of_char c)) s"

text \<open>
  \<^verbatim>\<open>String.prototype.trim\<close> removes the WhiteSpace and LineTerminator code points
  of ECMAScript from both ends: TAB, LF, VT, FF, CR, SP, NBSP, U+1680, U+2000 to U+200A,
  U+2028, U+2029, U+202F, U+205F, U+3000 and U+FEFF.
\<close>

definition is_ws :: "16 word \<Rightarrow> bool" where
  "is_ws c \<longleftrightarrow>
     c = 0x0009 \<or> c = 0x000A \<or> c = 0x000B \<or> c = 0x000C \<or> c = 0x000D \<or> c = 0x0020 \<or>
     c = 0x00A0 \<or> c = 0x1680 \<or> (0x2000 \<le> c \<and> c \<le> 0x200A) \<or> c = 0x2028 \<or>
     c = 0x2029 \<or> c = 0x202F \<or> c = 0x205F \<or> c = 0x3000 \<or> c = 0xFEFF"

definition trim :: "jstring \<Rightarrow> jstring" where
  "trim s = rev (dropWhile is_ws (rev (dropWhile is_ws s)))"

subsection \<open>JavaScript values\<close>

text \<open>
  The values that \<^verbatim>\<open>JSON.parse\<close> and property access produce. An object is the
  association list of its own properties.
\<close>

datatype jsval =
    JUndefined
  | JNull
  | JBool bool
  | JNum real
  | JStr jstring
  | JArr "jsval list"
  | JObj "(jstring \<times> jsval) list"

text \<open>ToBoolean: what \<^verbatim>\<open>!v\<close>, \<^verbatim>\<open>v || w\<close> and \<^verbatim>\<open>if (v)\<close> test.\<close>

fun truthy :: "jsval \<Rightarrow> bool" where
  "truthy JUndefined = False"
| "truthy JNull = False"
| "truthy (JBool b) = b"
| "truthy (JNum x) = (x \<noteq> 0)"
| "truthy (JStr s) = (s \<noteq> [])"
| "truthy (JArr xs) = True"
| "truthy (JObj kvs) = True"

text \<open>\<^verbatim>\<open>v == null\<close>, the test behind \<^verbatim>\<open>?.\<close>, \<^verbatim>\<open>??\<close> and \<^verbatim>\<open>!= null\<close>.\<close>

fun nullish :: "jsval \<Rightarrow> bool" where
  "nullish JUndefined = True"
| "nullish JNull = True"
| "nullish v = False"

text \<open>
  \<^verbatim>\<open>v.k\<close> and \<^verbatim>\<open>v[0]\<close> on a value that is not nullish, for the property names
  the program reads (\<^verbatim>\<open>message\<close>, \<^verbatim>\<open>hourly\<close>, \<^verbatim>\<open>time\<close>, \<^verbatim>\<open>length\<close>,
  \<^verbatim>\<open>0\<close>, the series names and the fields of \<^verbatim>\<open>current_weather\<close>): an object
  gives its own property, an array and a string give their length and their first
  element, every other value gives \<^verbatim>\<open>undefined\<close>.
\<close>

fun get_prop :: "jsval \<Rightarrow> jstring \<Rightarrow> jsval" where
  "get_prop (JObj kvs) k = (case map_of kvs k of Some v \<Rightarrow> v | None \<Rightarrow> JUndefined)"
| "get_prop (JArr xs) k =
     (if k = ascii ''length'' then JNum (real (length xs))
      else if k = ascii ''0'' then (case xs of [] \<Rightarrow> JUndefined | x # _ \<Rightarrow> x)
      else JUndefined)"
| "get_prop (JStr s) k =
     (if k = ascii ''length'' then JNum (real (length s))
      else if k = ascii ''0'' then (case s of [] \<Rightarrow> JUndefined | c # _ \<Rightarrow> JStr [c])
      else JUndefined)"
| "get_prop v k = JUndefined"

text \<open>\<^verbatim>\<open>v?.k\<close>: \<^verbatim>\<open>undefined\<close> when \<open>v\<close> is nullish.\<close>

definition opt_get :: "jsval \<Rightarrow> jstring \<Rightarrow> jsval" where
  "opt_get v k = (if nullish v then JUndefined else get_prop v k)"

text \<open>\<^verbatim>\<open>v ?? null\<close>.\<close>

definition or_null :: "jsval \<Rightarrow> jsval" where
  "or_null v = (if nullish v then JNull else v)"

subsection \<open>Distance\<close>

record place =
  name :: jstring
  country :: jstring
  lat :: real
  lon :: real

definition toRadians :: "real \<Rightarrow> real" where
  "toRadians d = (d * pi) / 180"

definition greatCircleNm :: "place \<Rightarrow> place \<Rightarrow> real" where
  "greatCircleNm a b =
     (let R_km = 6371;
          dLat = toRadians (lat b - lat a);
          dLon = toRadians (lon b - lon a);
          lat1 = toRadians (lat a);
          lat2 = toRadians (lat b);
          h = (sin (dLat / 2))\<^sup>2 + cos lat1 * cos lat2 * (sin (dLon / 2))\<^sup>2;
          d_km = 2 * R_km * arcsin (min 1 (sqrt h));
          d_nm = d_km * 0.539957
      in d_nm)"

subsection \<open>Outbound calls\<close>

text \<open>
  What \<^verbatim>\<open>await fetch(url)\<close> followed by \<^verbatim>\<open>r.ok\<close> and \<^verbatim>\<open>await r.json()\<close>
  can give: the fetch rejects (no connection), or it resolves to a response with its
  \<^verbatim>\<open>ok\<close> flag and the value its body parses to, \<open>None\<close> when \<^verbatim>\<open>r.json()\<close> rejects.
\<close>

datatype 'b fetch_result = Rejected | Resolved bool "'b option"

datatype exn = NetworkError | ParseError | TypeError | URIError

text \<open>
  One entry of the geocoding service's \<^verbatim>\<open>results\<close> array, typed as the service
  documents it: \<^verbatim>\<open>name\<close>, an optional \<^verbatim>\<open>country\<close>, and numeric \<^verbatim>\<open>latitude\<close>
  and \<^verbatim>\<open>longitude\<close>.
\<close>

record geo_result =
  r_name :: jstring
  r_country :: "jstring option"
  r_latitude :: real
  r_longitude :: real

datatype call = GeocodeCall jstring | MarineCall real real | LandCall real real

text \<open>
  The three remote services. Each answers a request given the calls made so far. The
  body of a geocoding response is its \<^verbatim>\<open>results\<close> array (empty when the field is
  absent); the bodies of the marine and forecast responses are arbitrary JSON.
\<close>

record services =
  geocoding :: "call list \<Rightarrow> jstring \<Rightarrow> geo_result list fetch_result"
  marine :: "call list \<Rightarrow> real \<Rightarrow> real \<Rightarrow> jsval fetch_result"
  forecast :: "call list \<Rightarrow> real \<Rightarrow> real \<Rightarrow> jsval fetch_result"

subsection \<open>geocodePlace\<close>

text \<open>
  \<^verbatim>\<open>encodeURIComponent\<close> throws a URIError on a string with a lone surrogate, before
  any request is made.
\<close>

fun lone_surrogate :: "jstring \<Rightarrow> bool" where
  "lone_surrogate [] = False"
| "lone_surrogate [c] = (0xD800 \<le> c \<and> c \<le> 0xDFFF)"
| "lone_surrogate (c # d # cs) =
     (if 0xD800 \<le> c \<and> c \<le> 0xDBFF
      then (if 0xDC00 \<le> d \<and> d \<le> 0xDFFF then lone_surrogate cs else True)
      else if 0xDC00 \<le> c \<and> c \<le> 0xDFFF then True
      else lone_surrogate (d # cs))"

definition geocodePlace ::
  "services \<Rightarrow> jstring \<Rightarrow> call list \<Rightarrow> (exn + place option) \<times> call list" where
  "geocodePlace sv nm tr =
     (if lone_surrogate nm then (Inl URIError, tr)
      else
        let tr' = tr @ [GeocodeCall nm] in
        case geocoding sv tr nm of
          Rejected \<Rightarrow> (Inl NetworkError, tr')
        | Resolved ok data \<Rightarrow>
            if \<not> ok then (Inr None, tr')
            else (case data of
                    None \<Rightarrow> (Inl ParseError, tr')
                  | Some results \<Rightarrow>
                      (case results of
                         [] \<Rightarrow> (Inr None, tr')
                       | first # _ \<Rightarrow>
                           (Inr (Some \<lparr>name = r_name first,
                                       country = (case r_country first of
                                                    None \<Rightarrow> [] | Some c \<Rightarrow> c),
                                       lat = r_latitude first,
                                       lon = r_longitude first\<rparr>), tr'))))"

subsection \<open>tryMarine and getMarineWeatherNear\<close>

record reading =
  time :: jsval
  wave :: jsval
  wind :: jsval
  waveDir :: jsval
  usedLat :: real
  usedLon :: real

definition tryMarine ::
  "services \<Rightarrow> real \<Rightarrow> real \<Rightarrow> call list \<Rightarrow> (exn + reading option) \<times> call list" where
  "tryMarine sv la lo tr =
     (let tr' = tr @ [MarineCall la lo] in
      case marine sv tr la lo of
        Rejected \<Rightarrow> (Inl NetworkError, tr')
      | Resolved ok data \<Rightarrow>
          if \<not> ok then (Inr None, tr')
          else (case data of
                  None \<Rightarrow> (Inl ParseError, tr')
                | Some d \<Rightarrow>
                    (let h = opt_get d (ascii ''hourly'') in
                     if \<not> truthy h \<or>
                        \<not> truthy (opt_get (get_prop h (ascii ''time'')) (ascii ''length''))
                     then (Inr None, tr')
                     else
                       (Inr (Some
                          \<lparr>time = get_prop (get_prop h (ascii ''time'')) (ascii ''0''),
                           wave = or_null (opt_get (get_prop h (ascii ''wave_height'')) (ascii ''0'')),
                           wind = or_null (opt_get (get_prop h (ascii ''wind_speed'')) (ascii ''0'')),
                           waveDir = or_null (opt_get (get_prop h (ascii ''wind_wave_direction''))
                                                (ascii ''0'')),
                           usedLat = la,
                           usedLon = lo\<rparr>), tr'))))"

definition offsets :: "real list" where
  "offsets = [0, 0.25, -0.25, 0.5, -0.5, 0.75, -0.75, 1, -1]"

text \<open>
  The two nested \<^verbatim>\<open>for\<close> loops. \<^verbatim>\<open>return cand\<close> in the inner loop leaves both
  loops, and so does an exception of the probe.
\<close>

fun inner_loop ::
  "services \<Rightarrow> real \<Rightarrow> real \<Rightarrow> real \<Rightarrow> real list \<Rightarrow> call list \<Rightarrow>
   (exn + reading option) \<times> call list" where
  "inner_loop sv la lo dlat [] tr = (Inr None, tr)"
| "inner_loop sv la lo dlat (dlon # rest) tr =
     (case tryMarine sv (la + dlat) (lo + dlon) tr of
        (Inl e, tr') \<Rightarrow> (Inl e, tr')
      | (Inr (Some cand), tr') \<Rightarrow> (Inr (Some cand), tr')
      | (Inr None, tr') \<Rightarrow> inner_loop sv la lo dlat rest tr')"

fun outer_loop ::
  "services \<Rightarrow> real \<Rightarrow> real \<Rightarrow> real list \<Rightarrow> call list \<Rightarrow>
   (exn + reading option) \<times> call list" where
  "outer_loop sv la lo [] tr = (Inr None, tr)"
| "outer_loop sv la lo (dlat # rest) tr =
     (case inner_loop sv la lo dlat offsets tr of
        (Inl e, tr') \<Rightarrow> (Inl e, tr')
      | (Inr (Some cand), tr') \<Rightarrow> (Inr (Some cand), tr')
      | (Inr None, tr') \<Rightarrow> outer_loop sv la lo rest tr')"

definition getMarineWeatherNear ::
  "services \<Rightarrow> real \<Rightarrow> real \<Rightarrow> call list \<Rightarrow> (exn + reading option) \<times> call list" where
  "getMarineWeatherNear sv la lo tr = outer_loop sv la lo offsets tr"

subsection \<open>getLandWeather\<close>

definition getLandWeather ::
  "services \<Rightarrow> real \<Rightarrow> real \<Rightarrow> call list \<Rightarrow> (exn + jsval option) \<times> call list" where
  "getLandWeather sv la lo tr =
     (let tr' = tr @ [LandCall la lo] in
      case forecast sv tr la lo of
        Rejected \<Rightarrow> (Inl NetworkError, tr')
      | Resolved ok data \<Rightarrow>
          if \<not> ok then (Inr None, tr')
          else (case data of
                  None \<Rightarrow> (Inl ParseError, tr')
                | Some d \<Rightarrow>
                    (let w = opt_get d (ascii ''current_weather'') in
                     if truthy w then (Inr (Some w), tr') else (Inr None, tr'))))"

subsection \<open>Reply text\<close>

text \<open>
  A reply is a template string. It is kept as the list of its pieces: literal ASCII text,
  literal non-ASCII code points, and the interpolated values, each with the conversion
  the source applies to it (\<^verbatim>\<open>${s}\<close> of a string, \<^verbatim>\<open>${x}\<close> of a number,
  \<^verbatim>\<open>x.toFixed(n)\<close>, \<^verbatim>\<open>${v}\<close> of a JSON value).
\<close>

datatype seg =
    Txt string
  | Uni "nat list"
  | Str jstring
  | Num real
  | Fixed nat real
  | Val jsval

text \<open>
  \<^verbatim>\<open>${v}\<close> applies ToString. On a JSON value it throws a TypeError exactly when it
  reaches an object with an own property \<^verbatim>\<open>toString\<close> (which is not callable, and the
  inherited \<^verbatim>\<open>valueOf\<close> returns the object); an array converts its elements.
\<close>

fun to_string_fails :: "jsval \<Rightarrow> bool" where
  "to_string_fails (JObj kvs) = (ascii ''toString'' \<in> fst ` set kvs)"
| "to_string_fails (JArr xs) = (\<exists>x\<in>set xs. to_string_fails x)"
| "to_string_fails v = False"

fun seg_fails :: "seg \<Rightarrow> bool" where
  "seg_fails (Val v) = to_string_fails v"
| "seg_fails s = False"

definition template :: "seg list \<Rightarrow> exn + seg list" where
  "template segs = (if list_ex seg_fails segs then Inl TypeError else Inr segs)"

definition Math_round :: "real \<Rightarrow> real" where
  "Math_round x = of_int \<lfloor>x + 0.5\<rfloor>"

definition distance_reply :: "place \<Rightarrow> place \<Rightarrow> seg list" where
  \<open>distance_reply from to =
     (let nm = greatCircleNm from to;
          nmRounded = Math_round nm
      in [Uni [0x1F4CF], Txt '' Great-circle distance:\<newline>'',
          Uni [0x2022], Txt '' '', Str (name from), Txt '', '', Str (country from),
          Txt '' ('', Fixed 3 (lat from), Txt '', '', Fixed 3 (lon from), Txt '')\<newline>'',
          Uni [0x2192], Txt '' '', Str (name to), Txt '', '', Str (country to),
          Txt '' ('', Fixed 3 (lat to), Txt '', '', Fixed 3 (lon to), Txt '')\<newline>'',
          Txt ''= **'', Num nmRounded,
          Txt '' nautical miles** (approx., rhumb lines not included).''])\<close>

definition distance_not_found :: "jstring \<Rightarrow> seg list" where
  \<open>distance_not_found nm =
     [Txt ''I couldn't find "'', Str nm, Txt ''". Try another port/city name.'']\<close>

definition distance_error :: "seg list" where
  "distance_error = [Uni [0x26A0, 0xFE0F], Txt '' Distance service error. Please try again.'']"

definition weather_not_found :: "jstring \<Rightarrow> seg list" where
  \<open>weather_not_found nm =
     [Txt ''I couldn'', Uni [0x2019], Txt ''t find "'', Str nm,
      Txt ''". Try another port/city.'']\<close>

definition storm_warning :: "seg list" where
  "storm_warning =
     [Txt ''\<newline>'', Uni [0x26A0, 0xFE0F], Txt '' Storm warning: High waves expected!'']"

text \<open>\<^verbatim>\<open>typeof marine.wave === "number" && marine.wave > 3\<close>.\<close>

definition alert :: "reading \<Rightarrow> seg list" where
  "alert m = (case wave m of JNum x \<Rightarrow> if x > 3 then storm_warning else [] | _ \<Rightarrow> [])"

definition marine_reply :: "place \<Rightarrow> reading \<Rightarrow> seg list" where
  "marine_reply p m =
     [Uni [0x1F30A], Txt '' Marine Weather for **'', Str (name p), Txt '', '',
      Str (country p), Txt ''**\<newline>'',
      Txt ''At '', Val (time m), Txt '' (local):\<newline>'',
      Uni [0x2022], Txt '' Wave height: ''] @
     (if \<not> nullish (wave m) then [Val (wave m), Txt '' m''] else [Txt ''n/a'']) @
     [Txt ''\<newline>'', Uni [0x2022], Txt '' Wind speed: ''] @
     (if \<not> nullish (wind m) then [Val (wind m), Txt '' m/s''] else [Txt ''n/a'']) @
     [Txt ''\<newline>'', Uni [0x2022], Txt '' Wave direction: ''] @
     (if \<not> nullish (waveDir m) then [Val (waveDir m), Uni [0xB0]] else [Txt ''n/a'']) @
     [Txt ''\<newline>'', Uni [0x2022], Txt '' Grid used: ('', Fixed 2 (usedLat m), Txt '', '',
      Fixed 2 (usedLon m), Txt '')''] @
     alert m"

definition land_reply :: "place \<Rightarrow> jsval \<Rightarrow> seg list" where
  "land_reply p land =
     [Uni [0x1F30D], Txt '' Weather for **'', Str (name p), Txt '', '', Str (country p),
      Txt ''** (land fallback)\<newline>'',
      Uni [0x2022], Txt '' Temperature: '', Val (get_prop land (ascii ''temperature'')),
      Txt '' '', Uni [0xB0], Txt ''C\<newline>'',
      Uni [0x2022], Txt '' Windspeed: '', Val (get_prop land (ascii ''windspeed'')),
      Txt '' km/h\<newline>'',
      Uni [0x2022], Txt '' Wind direction: '', Val (get_prop land (ascii ''winddirection'')),
      Uni [0xB0], Txt ''\<newline>'',
      Uni [0x2022], Txt '' Time: '', Val (get_prop land (ascii ''time'')), Txt ''\<newline>'',
      Uni [0x2022],
      Txt '' Note: Marine grid not available right at this point; moved to land weather.'']"

definition weather_service_error :: "seg list" where
  "weather_service_error =
     [Uni [0x26A0, 0xFE0F],
      Txt '' Weather service error (marine & land). Please try again with another nearby coastal location.'']"

definition weather_error :: "seg list" where
  "weather_error = [Uni [0x26A0, 0xFE0F], Txt '' Error fetching weather. Try again later.'']"

definition echo_reply :: "jstring \<Rightarrow> seg list" where
  \<open>echo_reply message =
     [Txt ''You asked: "'', Str message, Txt ''". This is a test response from backend.'']\<close>

subsection \<open>The chat endpoint\<close>

text \<open>
  The body of the \<^verbatim>\<open>try\<close> block of the distance branch. \<^verbatim>\<open>Promise.all\<close>
  starts both lookups before either is awaited, and rejects when one of them does.
\<close>

definition distance_try ::
  "services \<Rightarrow> jstring \<Rightarrow> jstring \<Rightarrow> call list \<Rightarrow> (exn + seg list) \<times> call list" where
  "distance_try sv fromName toName tr =
     (let (r1, tr1) = geocodePlace sv fromName tr;
          (r2, tr2) = geocodePlace sv toName tr1
      in case r1 of
           Inl e \<Rightarrow> (Inl e, tr2)
         | Inr from \<Rightarrow>
             (case r2 of
                Inl e \<Rightarrow> (Inl e, tr2)
              | Inr to \<Rightarrow>
                  (case from of
                     None \<Rightarrow> (Inr (distance_not_found fromName), tr2)
                   | Some f \<Rightarrow>
                       (case to of
                          None \<Rightarrow> (Inr (distance_not_found toName), tr2)
                        | Some t \<Rightarrow> (Inr (distance_reply f t), tr2)))))"

definition distance_flow ::
  "services \<Rightarrow> jstring \<Rightarrow> jstring \<Rightarrow> call list \<Rightarrow> seg list \<times> call list" where
  "distance_flow sv fromName toName tr =
     (case distance_try sv fromName toName tr of
        (Inl e, tr') \<Rightarrow> (distance_error, tr')
      | (Inr reply, tr') \<Rightarrow> (reply, tr'))"

text \<open>Step 3 of the weather branch: the land fallback.\<close>

definition land_fallback ::
  "services \<Rightarrow> place \<Rightarrow> call list \<Rightarrow> (exn + seg list) \<times> call list" where
  "land_fallback sv p tr =
     (case getLandWeather sv (lat p) (lon p) tr of
        (Inl e, tr') \<Rightarrow> (Inl e, tr')
      | (Inr (Some land), tr') \<Rightarrow> (template (land_reply p land), tr')
      | (Inr None, tr') \<Rightarrow> (Inr weather_service_error, tr'))"

text \<open>The body of the \<^verbatim>\<open>try\<close> block of the weather branch.\<close>

definition weather_try ::
  "services \<Rightarrow> jstring \<Rightarrow> call list \<Rightarrow> (exn + seg list) \<times> call list" where
  "weather_try sv placeName tr =
     (case geocodePlace sv placeName tr of
        (Inl e, tr1) \<Rightarrow> (Inl e, tr1)
      | (Inr None, tr1) \<Rightarrow> (Inr (weather_not_found placeName), tr1)
      | (Inr (Some p), tr1) \<Rightarrow>
          (case getMarineWeatherNear sv (lat p) (lon p) tr1 of
             (Inl e, tr2) \<Rightarrow> (Inl e, tr2)
           | (Inr None, tr2) \<Rightarrow> land_fallback sv p tr2
           | (Inr (Some m), tr2) \<Rightarrow>
               if \<not> nullish (wave m) \<or> \<not> nullish (wind m)
               then (template (marine_reply p m), tr2)
               else land_fallback sv p tr2))"

definition weather_flow ::
  "services \<Rightarrow> jstring \<Rightarrow> call list \<Rightarrow> seg list \<times> call list" where
  "weather_flow sv placeName tr =
     (case weather_try sv placeName tr of
        (Inl e, tr') \<Rightarrow> (weather_error, tr')
      | (Inr reply, tr') \<Rightarrow> (reply, tr'))"

text \<open>
  What the handler does with a request: it calls \<^verbatim>\<open>res.json({ reply })\<close>, or an
  exception leaves it and no reply is sent.
\<close>

datatype outcome = Replied "seg list" | Unhandled exn

text \<open>
  The handler. \<open>body\<close> is \<^verbatim>\<open>req.body\<close>. The two regular expressions are
  parameters: \<open>distMatch\<close> gives the two capture groups of the distance pattern on a
  message that matches it, \<open>weatherMatch\<close> the capture group of the weather pattern.
  \<^verbatim>\<open>.trim()\<close> on a value that is not a string is a TypeError, outside both
  \<^verbatim>\<open>try\<close> blocks.
\<close>

definition chat ::
  "services \<Rightarrow> (jstring \<Rightarrow> (jstring \<times> jstring) option) \<Rightarrow> (jstring \<Rightarrow> jstring option) \<Rightarrow>
   jsval \<Rightarrow> call list \<Rightarrow> outcome \<times> call list" where
  "chat sv distMatch weatherMatch body tr =
     (let m = opt_get body (ascii ''message'') in
      case (if truthy m then m else JStr []) of
        JStr s \<Rightarrow>
          (let message = trim s in
           if message = [] then (Replied [Txt ''Please type a question.''], tr)
           else
             (case distMatch message of
                Some (g1, g2) \<Rightarrow>
                  (let (reply, tr') = distance_flow sv (trim g1) (trim g2) tr
                   in (Replied reply, tr'))
              | None \<Rightarrow>
                  (case weatherMatch message of
                     Some g \<Rightarrow>
                       (let (reply, tr') = weather_flow sv (trim g) tr
                        in (Replied reply, tr'))
                   | None \<Rightarrow> (Replied (echo_reply message), tr))))
      | _ \<Rightarrow> (Unhandled TypeError, tr))"

subsection \<open>Empty hourly series\<close>


subsection \<open>The documented search order\<close>

text \<open>
  The order of candidate points as the specification gives it: the offset list applied to
  the latitude in the outer position and to the longitude in the inner position.
  \<open>probe_seq\<close> probes a list of points one after the other, and \<open>probe_at\<close> is
  the result of the probe of the \<open>i\<close>-th point of a list, made after the probes of the
  points before it.
\<close>

definition marine_call :: "real \<times> real \<Rightarrow> call" where
  "marine_call c = MarineCall (fst c) (snd c)"

definition documented_offsets :: "real list" where
  "documented_offsets = [0, 0.25, -0.25, 0.5, -0.5, 0.75, -0.75, 1, -1]"

definition documented_order :: "real \<Rightarrow> real \<Rightarrow> (real \<times> real) list" where
  "documented_order la lo =
     concat (map (\<lambda>dlat. map (\<lambda>dlon. (la + dlat, lo + dlon)) documented_offsets)
               documented_offsets)"

fun probe_seq ::
  "services \<Rightarrow> (real \<times> real) list \<Rightarrow> call list \<Rightarrow> (exn + reading option) \<times> call list" where
  "probe_seq sv [] tr = (Inr None, tr)"
| "probe_seq sv (c # cs) tr =
     (case tryMarine sv (fst c) (snd c) tr of
        (Inl e, tr') \<Rightarrow> (Inl e, tr')
      | (Inr (Some cand), tr') \<Rightarrow> (Inr (Some cand), tr')
      | (Inr None, tr') \<Rightarrow> probe_seq sv cs tr')"

definition probe_at ::
  "services \<Rightarrow> (real \<times> real) list \<Rightarrow> call list \<Rightarrow> nat \<Rightarrow> exn + reading option" where
  "probe_at sv cs tr i =
     fst (tryMarine sv (fst (cs ! i)) (snd (cs ! i)) (tr @ map marine_call (take i cs)))"

subsection \<open>Example services\<close>

text \<open>
  \<open>coastal_services\<close>: the geocoder knows Rotterdam, Mumbai and Singapore; the marine
  service has data at one grid point, a quarter of a degree east of Rotterdam, and
  rejects every other point with a client error; the forecast service is unreachable.
\<close>

definition example_reading_body :: jsval where
  "example_reading_body =
     JObj [(ascii ''hourly'',
            JObj [(ascii ''time'', JArr [JStr (ascii ''2025-08-30T00:00'')]),
                  (ascii ''wave_height'', JArr [JNum 3.5])])]"

definition rotterdam :: geo_result where
  "rotterdam = \<lparr>r_name = ascii ''Rotterdam'', r_country = Some (ascii ''Netherlands''),
                 r_latitude = 51.9225, r_longitude = 4.47917\<rparr>"

definition mumbai :: geo_result where
  "mumbai = \<lparr>r_name = ascii ''Mumbai'', r_country = Some (ascii ''India''),
              r_latitude = 19.07283, r_longitude = 72.88261\<rparr>"

definition singapore :: geo_result where
  "singapore = \<lparr>r_name = ascii ''Singapore'', r_country = Some (ascii ''Singapore''),
                 r_latitude = 1.28967, r_longitude = 103.85007\<rparr>"

definition coastal_services :: services where
  "coastal_services =
     \<lparr>geocoding = (\<lambda>h nm. if nm = ascii ''Rotterdam'' then Resolved True (Some [rotterdam])
                           else if nm = ascii ''Mumbai'' then Resolved True (Some [mumbai])
                           else if nm = ascii ''Singapore'' then Resolved True (Some [singapore])
                           else Resolved True (Some [])),
      marine = (\<lambda>h la lo. if la = 51.9225 \<and> lo = 4.72917
                           then Resolved True (Some example_reading_body)
                           else Resolved False None),
      forecast = (\<lambda>h la lo. Rejected)\<rparr>"

text \<open>What the geocoder and the resolver give for Rotterdam on \<open>coastal_services\<close>.\<close>

definition rotterdam_place :: place where
  "rotterdam_place = \<lparr>name = ascii ''Rotterdam'', country = ascii ''Netherlands'',
                       lat = 51.9225, lon = 4.47917\<rparr>"

definition example_reading :: reading where
  "example_reading = \<lparr>time = JStr (ascii ''2025-08-30T00:00''), wave = JNum 3.5, wind = JNull,
                       waveDir = JNull, usedLat = 51.9225, usedLon = 4.72917\<rparr>"

text \<open>
  \<open>inland_services\<close>: the geocoder knows Kansas City, the marine service rejects every
  point, the forecast service answers with current weather.
\<close>

definition kansas_city :: geo_result where
  "kansas_city = \<lparr>r_name = ascii ''Kansas City'', r_country = Some (ascii ''United States''),
                   r_latitude = 39.09973, r_longitude = -94.57857\<rparr>"

definition example_current_weather :: jsval where
  "example_current_weather =
     JObj [(ascii ''temperature'', JNum 21.4), (ascii ''windspeed'', JNum 11.2),
           (ascii ''winddirection'', JNum 180), (ascii ''time'', JStr (ascii ''2025-08-30T12:00''))]"

definition inland_services :: services where
  "inland_services =
     \<lparr>geocoding = (\<lambda>h nm. if nm = ascii ''Kansas City'' then Resolved True (Some [kansas_city])
                           else Resolved True (Some [])),
      marine = (\<lambda>h la lo. Resolved False None),
      forecast = (\<lambda>h la lo.
         Resolved True (Some (JObj [(ascii ''current_weather'', example_current_weather)])))\<rparr>"

definition kansas_city_place :: place where
  "kansas_city_place = \<lparr>name = ascii ''Kansas City'', country = ascii ''United States'',
                         lat = 39.09973, lon = -94.57857\<rparr>"

text \<open>\<open>offline_services\<close>: no service can be reached, every fetch rejects.\<close>

definition offline_services :: services where
  "offline_services =
     \<lparr>geocoding = (\<lambda>h nm. Rejected),
      marine = (\<lambda>h la lo. Rejected),
      forecast = (\<lambda>h la lo. Rejected)\<rparr>"

text \<open>
  \<open>timestamp_services\<close>: the geocoder knows Rotterdam, the marine service answers every
  point with an hourly series that has a time stamp and neither wave heights nor wind
  speeds, and the forecast service answers with current weather.
\<close>

definition timestamp_services :: services where
  "timestamp_services =
     \<lparr>geocoding = (\<lambda>h nm. if nm = ascii ''Rotterdam'' then Resolved True (Some [rotterdam])
                           else Resolved True (Some [])),
      marine = (\<lambda>h la lo.
         Resolved True (Some (JObj [(ascii ''hourly'',
           JObj [(ascii ''time'', JArr [JStr (ascii ''2025-08-30T00:00'')])])]))),
      forecast = (\<lambda>h la lo.
         Resolved True (Some (JObj [(ascii ''current_weather'', example_current_weather)])))\<rparr>"

definition timestamp_reading :: reading where
  "timestamp_reading = \<lparr>time = JStr (ascii ''2025-08-30T00:00''), wave = JNull, wind = JNull,
                         waveDir = JNull, usedLat = 51.9225, usedLon = 4.47917\<rparr>"


text \<open>
  Matchers for the examples: one that matches no message, one that takes every message
  for a distance request from Mumbai to Singapore, and one that takes every message for
  a weather request at Rotterdam.
\<close>

definition no_match :: "jstring \<Rightarrow> 'a option" where
  "no_match message = None"

definition match_mumbai_singapore :: "jstring \<Rightarrow> (jstring \<times> jstring) option" where
  "match_mumbai_singapore message = Some (ascii ''Mumbai'', ascii ''Singapore'')"

definition match_rotterdam :: "jstring \<Rightarrow> jstring option" where
  "match_rotterdam message = Some (ascii ''Rotterdam'')"

section \<open>Properties\<close>

subsection \<open>The distance calculator\<close>

lemma toRadians_swap: "toRadians (x - y) = - toRadians (y - x)"
proof -
  have "x - y = - (y - x)" by simp
  then show ?thesis unfolding toRadians_def by (metis minus_divide_left mult_minus_left)
qed

text \<open>
  Claim C8. For every two points \<open>a\<close> and \<open>b\<close>, the great-circle distance from \<open>a\<close> to
  \<open>b\<close> equals the distance from \<open>b\<close> to \<open>a\<close>.
\<close>

theorem greatCircleNm_symmetric: "greatCircleNm a b = greatCircleNm b a"
proof -
  have "(sin (toRadians (lat b - lat a) / 2))\<^sup>2 = (sin (toRadians (lat a - lat b) / 2))\<^sup>2"
    by (simp add: toRadians_swap [of "lat b" "lat a"])
  moreover
  have "(sin (toRadians (lon b - lon a) / 2))\<^sup>2 = (sin (toRadians (lon a - lon b) / 2))\<^sup>2"
    by (simp add: toRadians_swap [of "lon b" "lon a"])
  ultimately show ?thesis
    by (simp add: greatCircleNm_def Let_def mult.commute)
qed

text \<open>
  Claim C9. For every point \<open>a\<close>, the great-circle distance from \<open>a\<close> to itself is 0.
\<close>

theorem greatCircleNm_self: "greatCircleNm a a = 0"
  by (simp add: greatCircleNm_def toRadians_def)


subsection \<open>Strings and keys\<close>

lemma of_char_lt_256: "(of_char c :: nat) < 256"
proof -
  have "(of_char c :: nat) mod 256 < 256" by (rule mod_less_divisor) simp
  then show ?thesis by (simp only: of_char_mod_256)
qed

lemma ascii_eq_iff [simp]: "ascii s = ascii t \<longleftrightarrow> s = t"
proof -
  have "inj (\<lambda>c::char. (of_nat (of_char c) :: 16 word))"
  proof (rule injI)
    fix c d :: char
    assume h: "(of_nat (of_char c) :: 16 word) = of_nat (of_char d)"
    have c: "(of_char c :: nat) < 2 ^ 16" and d: "(of_char d :: nat) < 2 ^ 16"
      by (rule less_trans [OF of_char_lt_256], simp)+
    from h have "unat (of_nat (of_char c) :: 16 word) = unat (of_nat (of_char d) :: 16 word)"
      by simp
    with c d have "(of_char c :: nat) = of_char d"
      by (simp add: unat_of_nat)
    then show "c = d" by simp
  qed
  then show ?thesis by (simp add: ascii_def inj_map_eq_map)
qed

lemma ascii_eq_Nil [simp]: "ascii s = [] \<longleftrightarrow> s = []"
  by (simp add: ascii_def)

lemma trim_blank: "\<forall>c\<in>set s. is_ws c \<Longrightarrow> trim s = []"
proof -
  assume "\<forall>c\<in>set s. is_ws c"
  then have d: "dropWhile is_ws s = []" by (simp add: dropWhile_eq_Nil_conv)
  show ?thesis by (simp only: trim_def d rev.simps dropWhile.simps)
qed

lemma ascii_units: "c \<in> set (ascii s) \<Longrightarrow> c < 0x100"
proof -
  assume "c \<in> set (ascii s)"
  then obtain d :: char where c: "c = of_nat (of_char d)"
    by (auto simp: ascii_def)
  have "(of_char d :: nat) < 65536"
    by (rule less_trans [OF of_char_lt_256]) simp
  then have "unat (of_nat (of_char d) :: 16 word) = of_char d"
    by (simp add: unat_of_nat)
  then have "unat c < 256" using of_char_lt_256 [of d] c by simp
  then show ?thesis by (simp add: word_less_nat_alt)
qed

lemma no_lone_surrogate:
  "(\<forall>c\<in>set s. c < 0xD800) \<Longrightarrow> \<not> lone_surrogate s"
  by (induction s rule: lone_surrogate.induct) (auto simp: word_less_nat_alt word_le_nat_alt)

lemma ascii_no_lone_surrogate [simp]: "\<not> lone_surrogate (ascii s)"
proof (rule no_lone_surrogate, rule ballI)
  fix c assume "c \<in> set (ascii s)"
  then have "c < 0x100" by (rule ascii_units)
  then show "c < 0xD800" by (simp add: word_less_nat_alt)
qed

subsection \<open>The marine-weather resolver\<close>

lemma tryMarine_trace: "snd (tryMarine sv la lo tr) = tr @ [MarineCall la lo]"
  by (simp add: tryMarine_def Let_def split: fetch_result.split option.split)

lemma probe_seq_append:
  "probe_seq sv (xs @ ys) tr =
     (case probe_seq sv xs tr of
        (Inl e, tr') \<Rightarrow> (Inl e, tr')
      | (Inr (Some cand), tr') \<Rightarrow> (Inr (Some cand), tr')
      | (Inr None, tr') \<Rightarrow> probe_seq sv ys tr')"
  by (induction xs arbitrary: tr) (auto split: prod.split sum.split option.split)

lemma inner_loop_seq:
  "inner_loop sv la lo dlat ds tr = probe_seq sv (map (\<lambda>dlon. (la + dlat, lo + dlon)) ds) tr"
  by (induction ds arbitrary: tr) (auto split: prod.split sum.split option.split)

lemma outer_loop_seq:
  "outer_loop sv la lo ds tr =
     probe_seq sv (concat (map (\<lambda>dlat. map (\<lambda>dlon. (la + dlat, lo + dlon)) offsets) ds)) tr"
  by (induction ds arbitrary: tr)
     (auto simp: probe_seq_append inner_loop_seq split: prod.split sum.split option.split)

lemma getMarineWeatherNear_seq:
  "getMarineWeatherNear sv la lo tr = probe_seq sv (documented_order la lo) tr"
  by (simp add: getMarineWeatherNear_def outer_loop_seq documented_order_def
        documented_offsets_def offsets_def)

lemma probe_seq_all_null:
  "(\<forall>i<length cs. probe_at sv cs tr i = Inr None) \<Longrightarrow>
   probe_seq sv cs tr = (Inr None, tr @ map marine_call cs)"
proof (induction cs arbitrary: tr)
  case Nil
  then show ?case by simp
next
  case (Cons c cs)
  from Cons.prems have h0: "probe_at sv (c # cs) tr 0 = Inr None" by auto
  then have t0: "tryMarine sv (fst c) (snd c) tr = (Inr None, tr @ [marine_call c])"
    using tryMarine_trace [of sv "fst c" "snd c" tr]
    by (simp add: probe_at_def marine_call_def prod_eq_iff)
  have "\<forall>i<length cs. probe_at sv cs (tr @ [marine_call c]) i = Inr None"
  proof (intro allI impI)
    fix i assume "i < length cs"
    then have "probe_at sv (c # cs) tr (Suc i) = Inr None" using Cons.prems by auto
    then show "probe_at sv cs (tr @ [marine_call c]) i = Inr None"
      by (simp add: probe_at_def)
  qed
  from Cons.IH [OF this] show ?case by (simp add: t0)
qed

lemma probe_seq_first:
  "k < length cs \<Longrightarrow> (\<forall>i<k. probe_at sv cs tr i = Inr None) \<Longrightarrow>
   probe_at sv cs tr k \<noteq> Inr None \<Longrightarrow>
   probe_seq sv cs tr = (probe_at sv cs tr k, tr @ map marine_call (take (Suc k) cs))"
proof (induction cs arbitrary: tr k)
  case Nil
  then show ?case by simp
next
  case (Cons c cs)
  have tt: "snd (tryMarine sv (fst c) (snd c) tr) = tr @ [marine_call c]"
    by (simp add: tryMarine_trace marine_call_def)
  show ?case
  proof (cases k)
    case 0
    with Cons.prems(3) have "fst (tryMarine sv (fst c) (snd c) tr) \<noteq> Inr None"
      by (simp add: probe_at_def)
    with tt 0 show ?thesis
      by (cases "tryMarine sv (fst c) (snd c) tr")
         (auto simp: probe_at_def split: sum.split option.split)
  next
    case (Suc j)
    with Cons.prems(2) have "probe_at sv (c # cs) tr 0 = Inr None" by auto
    then have t0: "tryMarine sv (fst c) (snd c) tr = (Inr None, tr @ [marine_call c])"
      using tt by (simp add: probe_at_def prod_eq_iff)
    have shift: "\<And>i. probe_at sv (c # cs) tr (Suc i) = probe_at sv cs (tr @ [marine_call c]) i"
      by (simp add: probe_at_def)
    have a: "j < length cs" using Cons.prems(1) Suc by simp
    have b: "\<forall>i<j. probe_at sv cs (tr @ [marine_call c]) i = Inr None"
      using Cons.prems(2) Suc shift by (metis Suc_less_eq)
    have c: "probe_at sv cs (tr @ [marine_call c]) j \<noteq> Inr None"
      using Cons.prems(3) Suc shift by simp
    from Cons.IH [OF a b c] show ?thesis
      by (simp add: t0 Suc shift)
  qed
qed

lemma documented_order_length: "length (documented_order la lo) = 81"
  by (simp add: documented_order_def documented_offsets_def)

lemma documented_order_first: "documented_order la lo ! 0 = (la, lo)"
  by (simp add: documented_order_def documented_offsets_def)

text \<open>
  Claim C1. For every target coordinate and every behaviour of the marine service, the
  resolver probes the candidate points in the documented nested order, the target point
  itself first. If the probe of candidate \<open>k\<close> is the first whose result is not
  nothing-found, the resolver ends with that result, and the calls it has made are the
  probes of the candidates 0 to \<open>k\<close> and no other. If all 81 probes report
  nothing-found, it reports nothing-found after the 81 probes.
\<close>

theorem getMarineWeatherNear_order:
  "length (documented_order la lo) = 81 \<and>
   documented_order la lo ! 0 = (la, lo) \<and>
   (\<forall>k<81. (\<forall>i<k. probe_at sv (documented_order la lo) tr i = Inr None) \<and>
            probe_at sv (documented_order la lo) tr k \<noteq> Inr None \<longrightarrow>
      getMarineWeatherNear sv la lo tr =
        (probe_at sv (documented_order la lo) tr k,
         tr @ map marine_call (take (Suc k) (documented_order la lo)))) \<and>
   ((\<forall>i<81. probe_at sv (documented_order la lo) tr i = Inr None) \<longrightarrow>
      getMarineWeatherNear sv la lo tr =
        (Inr None, tr @ map marine_call (documented_order la lo)))"
proof (intro conjI allI impI)
  show "length (documented_order la lo) = 81" by (rule documented_order_length)
  show "documented_order la lo ! 0 = (la, lo)" by (rule documented_order_first)
next
  fix k :: nat
  assume "k < 81"
    and "(\<forall>i<k. probe_at sv (documented_order la lo) tr i = Inr None) \<and>
         probe_at sv (documented_order la lo) tr k \<noteq> Inr None"
  then show "getMarineWeatherNear sv la lo tr =
        (probe_at sv (documented_order la lo) tr k,
         tr @ map marine_call (take (Suc k) (documented_order la lo)))"
    using probe_seq_first [of k "documented_order la lo" sv tr]
    by (simp add: getMarineWeatherNear_seq documented_order_length)
next
  assume "\<forall>i<81. probe_at sv (documented_order la lo) tr i = Inr None"
  then show "getMarineWeatherNear sv la lo tr =
        (Inr None, tr @ map marine_call (documented_order la lo))"
    using probe_seq_all_null [of "documented_order la lo" sv tr]
    by (simp add: getMarineWeatherNear_seq documented_order_length)
qed

lemmas example_eval =
  probe_at_def documented_order_def documented_offsets_def tryMarine_def
  coastal_services_def example_reading_body_def opt_get_def or_null_def marine_call_def

theorem getMarineWeatherNear_order_witness:
  "probe_at coastal_services (documented_order 51.9225 4.47917) [] 0 = Inr None \<and>
   probe_at coastal_services (documented_order 51.9225 4.47917) [] 1 \<noteq> Inr None \<and>
   getMarineWeatherNear coastal_services 51.9225 4.47917 [] =
     (Inr (Some \<lparr>time = JStr (ascii ''2025-08-30T00:00''), wave = JNum 3.5, wind = JNull,
                  waveDir = JNull, usedLat = 51.9225, usedLon = 4.72917\<rparr>),
      [MarineCall 51.9225 4.47917, MarineCall 51.9225 4.72917])"
proof -
  have a: "\<forall>i<1. probe_at coastal_services (documented_order 51.9225 4.47917) [] i = Inr None"
    by (simp add: example_eval)
  have b: "probe_at coastal_services (documented_order 51.9225 4.47917) [] 1 =
     Inr (Some \<lparr>time = JStr (ascii ''2025-08-30T00:00''), wave = JNum 3.5, wind = JNull,
                  waveDir = JNull, usedLat = 51.9225, usedLon = 4.72917\<rparr>)"
    by (simp add: example_eval)
  have c: "map marine_call (take (Suc 1) (documented_order 51.9225 4.47917)) =
     [MarineCall 51.9225 4.47917, MarineCall 51.9225 4.72917]"
    by (simp add: example_eval)
  have "getMarineWeatherNear coastal_services 51.9225 4.47917 [] =
     (probe_at coastal_services (documented_order 51.9225 4.47917) [] 1,
      [] @ map marine_call (take (Suc 1) (documented_order 51.9225 4.47917)))"
  proof -
    have k: "(1::nat) < 81" by simp
    have nn: "probe_at coastal_services (documented_order 51.9225 4.47917) [] 1 \<noteq> Inr None"
      using b by simp
    from getMarineWeatherNear_order [of "51.9225" "4.47917" coastal_services "[]"] k a nn
    show ?thesis by blast
  qed
  with a b c show ?thesis by simp
qed


subsection \<open>Evaluation of the weather flow on the coastal example\<close>

lemma coastal_geocode:
  "geocodePlace coastal_services (ascii ''Rotterdam'') [] =
     (Inr (Some rotterdam_place), [GeocodeCall (ascii ''Rotterdam'')])"
  by (simp add: geocodePlace_def coastal_services_def rotterdam_def rotterdam_place_def)

lemma coastal_resolver:
  "getMarineWeatherNear coastal_services 51.9225 4.47917 tr =
     (Inr (Some example_reading), tr @ [MarineCall 51.9225 4.47917, MarineCall 51.9225 4.72917])"
  by (simp add: getMarineWeatherNear_def offsets_def tryMarine_def coastal_services_def
        example_reading_body_def example_reading_def opt_get_def or_null_def)

lemma coastal_template:
  "template (marine_reply rotterdam_place example_reading) =
     Inr (marine_reply rotterdam_place example_reading)"
  by (simp add: template_def marine_reply_def example_reading_def alert_def storm_warning_def)

lemma coastal_weather_flow:
  "weather_flow coastal_services (ascii ''Rotterdam'') [] =
     (marine_reply rotterdam_place example_reading,
      [GeocodeCall (ascii ''Rotterdam''), MarineCall 51.9225 4.47917,
       MarineCall 51.9225 4.72917])"
proof -
  have r: "getMarineWeatherNear coastal_services (lat rotterdam_place) (lon rotterdam_place)
              [GeocodeCall (ascii ''Rotterdam'')] =
     (Inr (Some example_reading),
      [GeocodeCall (ascii ''Rotterdam''), MarineCall 51.9225 4.47917,
       MarineCall 51.9225 4.72917])"
    using coastal_resolver [of "[GeocodeCall (ascii ''Rotterdam'')]"]
    by (simp add: rotterdam_place_def)
  have w: "\<not> nullish (wave example_reading)" by (simp add: example_reading_def)
  show ?thesis
    by (simp add: weather_flow_def weather_try_def coastal_geocode r w coastal_template)
qed

subsection \<open>Traces of the land fallback\<close>

lemma getLandWeather_trace: "snd (getLandWeather sv la lo tr) = tr @ [LandCall la lo]"
  by (simp add: getLandWeather_def Let_def split: fetch_result.split option.split)

lemma land_fallback_trace: "snd (land_fallback sv p tr) = tr @ [LandCall (lat p) (lon p)]"
  using getLandWeather_trace [of sv "lat p" "lon p" tr]
  by (auto simp: land_fallback_def split: prod.splits sum.splits option.splits)

lemma weather_flow_trace: "snd (weather_flow sv nm tr) = snd (weather_try sv nm tr)"
  by (simp add: weather_flow_def split: prod.splits sum.splits)

subsection \<open>The marine probe\<close>

text \<open>
  Claim C2, as stated: whenever \<^verbatim>\<open>tryMarine\<close> returns a reading, its wave height or
  its wind speed is not null. The probe does not check this: on a response whose hourly
  series has a time stamp and nothing else it returns a reading with both fields null.
\<close>

theorem tryMarine_reading_without_wave_and_wind:
  "tryMarine timestamp_services 10 20 [] =
     (Inr (Some \<lparr>time = JStr (ascii ''2025-08-30T00:00''), wave = JNull, wind = JNull,
                  waveDir = JNull, usedLat = 10, usedLon = 20\<rparr>),
      [MarineCall 10 20])"
  by (simp add: tryMarine_def opt_get_def or_null_def timestamp_services_def)

text \<open>Replies of the weather flow that are told apart by their first pieces.\<close>

lemma marine_reply_nullish:
  "marine_reply p m = marine_reply p' m' \<Longrightarrow>
   (nullish (wave m) \<longleftrightarrow> nullish (wave m')) \<and> (nullish (wind m) \<longleftrightarrow> nullish (wind m'))"
  by (auto simp: marine_reply_def split: if_splits)

lemma template_Inr: "template segs = Inr reply \<Longrightarrow> reply = segs"
  by (simp add: template_def split: if_splits)

lemma marine_reply_not_other:
  "marine_reply p m \<noteq> weather_error"
  "marine_reply p m \<noteq> weather_not_found nm"
  "marine_reply p m \<noteq> weather_service_error"
  "marine_reply p m \<noteq> land_reply p' land"
  by (simp_all add: marine_reply_def weather_error_def weather_not_found_def
        weather_service_error_def land_reply_def)

lemmas marine_reply_distinct = marine_reply_not_other marine_reply_not_other [THEN not_sym]

lemma land_fallback_not_marine:
  "land_fallback sv p' tr \<noteq> (Inr (marine_reply p m), tr')"
  by (auto simp: land_fallback_def marine_reply_distinct dest!: template_Inr
           split: prod.splits sum.splits option.splits)

lemma tryMarine_sample:
  assumes "marine sv tr la lo = Resolved True (Some d)"
    and "truthy (opt_get d (ascii ''hourly''))"
    and "get_prop (opt_get d (ascii ''hourly'')) (ascii ''time'') = JArr (t # ts)"
  shows "fst (tryMarine sv la lo tr) =
           Inr (Some \<lparr>time = t,
             wave = or_null (opt_get (get_prop (opt_get d (ascii ''hourly'')) (ascii ''wave_height''))
                      (ascii ''0'')),
             wind = or_null (opt_get (get_prop (opt_get d (ascii ''hourly'')) (ascii ''wind_speed''))
                      (ascii ''0'')),
             waveDir = or_null (opt_get (get_prop (opt_get d (ascii ''hourly''))
                      (ascii ''wind_wave_direction'')) (ascii ''0'')),
             usedLat = la, usedLon = lo\<rparr>)"
  using assms by (simp add: tryMarine_def Let_def opt_get_def [of "JArr (t # ts)"])

lemma or_null_absent: "nullish v \<Longrightarrow> or_null (opt_get v k) = JNull"
  by (simp add: or_null_def opt_get_def)

lemma weather_try_discards:
  assumes "geocodePlace sv nm tr = (Inr (Some q), tr1)"
    and "getMarineWeatherNear sv (lat q) (lon q) tr1 = (Inr (Some r0), tr2)"
    and "nullish (wave r0)" and "nullish (wind r0)"
  shows "weather_try sv nm tr = land_fallback sv q tr2"
  using assms by (simp add: weather_try_def)

lemma weather_flow_land_reply:
  assumes "weather_try sv nm tr = land_fallback sv q tr2"
    and "getLandWeather sv (lat q) (lon q) tr2 = (Inr (Some land), tr3)"
    and "template (land_reply q land) = Inr reply"
  shows "fst (weather_flow sv nm tr) = reply"
  using assms by (simp add: weather_flow_def land_fallback_def)

text \<open>
  Claim C2, amended. The check is made by the weather flow, not by the probe.
  \<^item> Whenever the weather flow answers with the marine reply for a reading, the wave
    height or the wind speed of that reading is neither null nor undefined.
  \<^item> The probe returns a reading whenever the response has a success status and its
    hourly time series is a non-empty array; where the response has no wave heights the
    wave height of the reading is null, and where it has no wind speeds the wind speed
    is null.
  \<^item> When the resolver returns a reading whose wave height and wind speed are both null,
    the weather flow discards it and falls back to land weather: its next and last call
    is the land-weather service at the place's own coordinate, and where that service
    answers, the reply is the land reply.
\<close>

theorem marine_reading_checked_by_weather_flow:
  "(weather_flow sv nm tr = (marine_reply p m, tr') \<longrightarrow>
      \<not> nullish (wave m) \<or> \<not> nullish (wind m)) \<and>
   (marine sv tr la lo = Resolved True (Some d) \<and>
    truthy (opt_get d (ascii ''hourly'')) \<and>
    get_prop (opt_get d (ascii ''hourly'')) (ascii ''time'') = JArr (t # ts) \<longrightarrow>
      (\<exists>r. fst (tryMarine sv la lo tr) = Inr (Some r) \<and>
           time r = t \<and> usedLat r = la \<and> usedLon r = lo \<and>
           (nullish (get_prop (opt_get d (ascii ''hourly'')) (ascii ''wave_height'')) \<longrightarrow>
              wave r = JNull) \<and>
           (nullish (get_prop (opt_get d (ascii ''hourly'')) (ascii ''wind_speed'')) \<longrightarrow>
              wind r = JNull))) \<and>
   (geocodePlace sv nm tr = (Inr (Some q), tr1) \<and>
    getMarineWeatherNear sv (lat q) (lon q) tr1 = (Inr (Some r0), tr2) \<and>
    nullish (wave r0) \<and> nullish (wind r0) \<longrightarrow>
      weather_try sv nm tr = land_fallback sv q tr2 \<and>
      snd (weather_flow sv nm tr) = tr2 @ [LandCall (lat q) (lon q)] \<and>
      (\<forall>land tr3 reply.
         getLandWeather sv (lat q) (lon q) tr2 = (Inr (Some land), tr3) \<and>
         template (land_reply q land) = Inr reply \<longrightarrow>
           fst (weather_flow sv nm tr) = reply))"
proof (intro conjI)
  show "weather_flow sv nm tr = (marine_reply p m, tr') \<longrightarrow>
      \<not> nullish (wave m) \<or> \<not> nullish (wind m)"
    by (auto simp: weather_flow_def weather_try_def marine_reply_distinct
                   land_fallback_not_marine
             dest!: template_Inr dest: marine_reply_nullish
             split: prod.splits sum.splits option.splits if_splits)
next
  show "marine sv tr la lo = Resolved True (Some d) \<and>
    truthy (opt_get d (ascii ''hourly'')) \<and>
    get_prop (opt_get d (ascii ''hourly'')) (ascii ''time'') = JArr (t # ts) \<longrightarrow>
      (\<exists>r. fst (tryMarine sv la lo tr) = Inr (Some r) \<and>
           time r = t \<and> usedLat r = la \<and> usedLon r = lo \<and>
           (nullish (get_prop (opt_get d (ascii ''hourly'')) (ascii ''wave_height'')) \<longrightarrow>
              wave r = JNull) \<and>
           (nullish (get_prop (opt_get d (ascii ''hourly'')) (ascii ''wind_speed'')) \<longrightarrow>
              wind r = JNull))"
  proof
    assume "marine sv tr la lo = Resolved True (Some d) \<and>
      truthy (opt_get d (ascii ''hourly'')) \<and>
      get_prop (opt_get d (ascii ''hourly'')) (ascii ''time'') = JArr (t # ts)"
    then have "fst (tryMarine sv la lo tr) =
           Inr (Some \<lparr>time = t,
             wave = or_null (opt_get (get_prop (opt_get d (ascii ''hourly'')) (ascii ''wave_height''))
                      (ascii ''0'')),
             wind = or_null (opt_get (get_prop (opt_get d (ascii ''hourly'')) (ascii ''wind_speed''))
                      (ascii ''0'')),
             waveDir = or_null (opt_get (get_prop (opt_get d (ascii ''hourly''))
                      (ascii ''wind_wave_direction'')) (ascii ''0'')),
             usedLat = la, usedLon = lo\<rparr>)"
      using tryMarine_sample [of sv tr la lo d t ts] by blast
    then show "\<exists>r. fst (tryMarine sv la lo tr) = Inr (Some r) \<and>
           time r = t \<and> usedLat r = la \<and> usedLon r = lo \<and>
           (nullish (get_prop (opt_get d (ascii ''hourly'')) (ascii ''wave_height'')) \<longrightarrow>
              wave r = JNull) \<and>
           (nullish (get_prop (opt_get d (ascii ''hourly'')) (ascii ''wind_speed'')) \<longrightarrow>
              wind r = JNull)"
      by (simp add: or_null_absent)
  qed
next
  show "geocodePlace sv nm tr = (Inr (Some q), tr1) \<and>
    getMarineWeatherNear sv (lat q) (lon q) tr1 = (Inr (Some r0), tr2) \<and>
    nullish (wave r0) \<and> nullish (wind r0) \<longrightarrow>
      weather_try sv nm tr = land_fallback sv q tr2 \<and>
      snd (weather_flow sv nm tr) = tr2 @ [LandCall (lat q) (lon q)] \<and>
      (\<forall>land tr3 reply.
         getLandWeather sv (lat q) (lon q) tr2 = (Inr (Some land), tr3) \<and>
         template (land_reply q land) = Inr reply \<longrightarrow>
           fst (weather_flow sv nm tr) = reply)"
  proof
    assume "geocodePlace sv nm tr = (Inr (Some q), tr1) \<and>
      getMarineWeatherNear sv (lat q) (lon q) tr1 = (Inr (Some r0), tr2) \<and>
      nullish (wave r0) \<and> nullish (wind r0)"
    then have w: "weather_try sv nm tr = land_fallback sv q tr2"
      using weather_try_discards [of sv nm tr q tr1 r0 tr2] by blast
    have t: "snd (weather_flow sv nm tr) = tr2 @ [LandCall (lat q) (lon q)]"
      by (simp add: weather_flow_trace w land_fallback_trace)
    have r: "\<forall>land tr3 reply.
         getLandWeather sv (lat q) (lon q) tr2 = (Inr (Some land), tr3) \<and>
         template (land_reply q land) = Inr reply \<longrightarrow>
           fst (weather_flow sv nm tr) = reply"
      using weather_flow_land_reply [OF w] by blast
    from w t r show "weather_try sv nm tr = land_fallback sv q tr2 \<and>
      snd (weather_flow sv nm tr) = tr2 @ [LandCall (lat q) (lon q)] \<and>
      (\<forall>land tr3 reply.
         getLandWeather sv (lat q) (lon q) tr2 = (Inr (Some land), tr3) \<and>
         template (land_reply q land) = Inr reply \<longrightarrow>
           fst (weather_flow sv nm tr) = reply)"
      by blast
  qed
qed

lemma timestamp_geocode:
  "geocodePlace timestamp_services (ascii ''Rotterdam'') [] =
     (Inr (Some rotterdam_place), [GeocodeCall (ascii ''Rotterdam'')])"
  by (simp add: geocodePlace_def timestamp_services_def rotterdam_def rotterdam_place_def)

lemma timestamp_resolver:
  "getMarineWeatherNear timestamp_services (lat rotterdam_place) (lon rotterdam_place)
     [GeocodeCall (ascii ''Rotterdam'')] =
     (Inr (Some timestamp_reading),
      [GeocodeCall (ascii ''Rotterdam''), MarineCall 51.9225 4.47917])"
  by (simp add: getMarineWeatherNear_def offsets_def tryMarine_def timestamp_services_def
        timestamp_reading_def rotterdam_place_def opt_get_def or_null_def)

lemma timestamp_land:
  "getLandWeather timestamp_services (lat rotterdam_place) (lon rotterdam_place)
     [GeocodeCall (ascii ''Rotterdam''), MarineCall 51.9225 4.47917] =
     (Inr (Some example_current_weather),
      [GeocodeCall (ascii ''Rotterdam''), MarineCall 51.9225 4.47917,
       LandCall 51.9225 4.47917])"
  by (simp add: getLandWeather_def timestamp_services_def rotterdam_place_def opt_get_def
        example_current_weather_def)

lemma timestamp_template:
  "template (land_reply rotterdam_place example_current_weather) =
     Inr (land_reply rotterdam_place example_current_weather)"
  by (simp add: template_def land_reply_def example_current_weather_def)

theorem marine_reading_checked_by_weather_flow_witness:
  "weather_flow coastal_services (ascii ''Rotterdam'') [] =
     (marine_reply rotterdam_place example_reading,
      [GeocodeCall (ascii ''Rotterdam''), MarineCall 51.9225 4.47917,
       MarineCall 51.9225 4.72917]) \<and>
   \<not> (nullish (wave example_reading) \<and> nullish (wind example_reading)) \<and>
   (\<exists>r. fst (tryMarine timestamp_services 10 20 []) = Inr (Some r) \<and>
        time r = JStr (ascii ''2025-08-30T00:00'') \<and> wave r = JNull \<and> wind r = JNull) \<and>
   getMarineWeatherNear timestamp_services (lat rotterdam_place) (lon rotterdam_place)
     [GeocodeCall (ascii ''Rotterdam'')] =
     (Inr (Some timestamp_reading),
      [GeocodeCall (ascii ''Rotterdam''), MarineCall 51.9225 4.47917]) \<and>
   nullish (wave timestamp_reading) \<and> nullish (wind timestamp_reading) \<and>
   snd (weather_flow timestamp_services (ascii ''Rotterdam'') []) =
     [GeocodeCall (ascii ''Rotterdam''), MarineCall 51.9225 4.47917] @
     [LandCall (lat rotterdam_place) (lon rotterdam_place)] \<and>
   fst (weather_flow timestamp_services (ascii ''Rotterdam'') []) =
     land_reply rotterdam_place example_current_weather"
proof -
  let ?d = "JObj [(ascii ''hourly'',
           JObj [(ascii ''time'', JArr [JStr (ascii ''2025-08-30T00:00'')])])]"
  note thm1 = marine_reading_checked_by_weather_flow
    [of coastal_services "ascii ''Rotterdam''" "[]" rotterdam_place example_reading]
  have 1: "\<not> (nullish (wave example_reading) \<and> nullish (wind example_reading))"
    using thm1 coastal_weather_flow by blast
  have h2: "marine timestamp_services [] 10 20 = Resolved True (Some ?d) \<and>
    truthy (opt_get ?d (ascii ''hourly'')) \<and>
    get_prop (opt_get ?d (ascii ''hourly'')) (ascii ''time'') =
      JArr (JStr (ascii ''2025-08-30T00:00'') # [])"
    and n2: "nullish (get_prop (opt_get ?d (ascii ''hourly'')) (ascii ''wave_height''))"
      "nullish (get_prop (opt_get ?d (ascii ''hourly'')) (ascii ''wind_speed''))"
    by (simp_all add: timestamp_services_def opt_get_def)
  note thm2 = marine_reading_checked_by_weather_flow
    [of timestamp_services _ "[]" _ _ _ 10 20 ?d "JStr (ascii ''2025-08-30T00:00'')" "[]"]
  have 2: "\<exists>r. fst (tryMarine timestamp_services 10 20 []) = Inr (Some r) \<and>
        time r = JStr (ascii ''2025-08-30T00:00'') \<and> wave r = JNull \<and> wind r = JNull"
    using thm2 h2 n2 by blast
  have n3: "nullish (wave timestamp_reading)" "nullish (wind timestamp_reading)"
    by (simp_all add: timestamp_reading_def)
  note thm3 = marine_reading_checked_by_weather_flow
    [of timestamp_services "ascii ''Rotterdam''" "[]" _ _ _ _ _ _ _ _ rotterdam_place
        "[GeocodeCall (ascii ''Rotterdam'')]" timestamp_reading
        "[GeocodeCall (ascii ''Rotterdam''), MarineCall 51.9225 4.47917]"]
  have 3: "snd (weather_flow timestamp_services (ascii ''Rotterdam'') []) =
     [GeocodeCall (ascii ''Rotterdam''), MarineCall 51.9225 4.47917] @
     [LandCall (lat rotterdam_place) (lon rotterdam_place)]"
    using thm3 timestamp_geocode timestamp_resolver n3 by blast
  have 4: "fst (weather_flow timestamp_services (ascii ''Rotterdam'') []) =
     land_reply rotterdam_place example_current_weather"
    using thm3 timestamp_geocode timestamp_resolver n3 timestamp_land timestamp_template
    by blast
  from coastal_weather_flow 1 2 timestamp_resolver n3 3 4 show ?thesis by blast
qed





subsection \<open>The land fallback\<close>

text \<open>
  Claim C3. For every geocoded place of the weather flow: if all 81 probes of the resolver
  report nothing-found, the calls of the flow are the geocoder call, the 81 probes in
  order, and then one call of the land-weather service at the place's own latitude and
  longitude, with no offset.
\<close>

theorem land_fallback_original_coordinate:
  assumes "geocodePlace sv nm tr = (Inr (Some p), tr1)"
    and "\<forall>i<81. probe_at sv (documented_order (lat p) (lon p)) tr1 i = Inr None"
  shows "snd (weather_flow sv nm tr) =
           tr1 @ map marine_call (documented_order (lat p) (lon p)) @ [LandCall (lat p) (lon p)]"
proof -
  have "getMarineWeatherNear sv (lat p) (lon p) tr1 =
          (Inr None, tr1 @ map marine_call (documented_order (lat p) (lon p)))"
    using probe_seq_all_null [of "documented_order (lat p) (lon p)" sv tr1] assms(2)
    by (simp add: getMarineWeatherNear_seq documented_order_length)
  then have "weather_try sv nm tr =
          land_fallback sv p (tr1 @ map marine_call (documented_order (lat p) (lon p)))"
    by (simp add: weather_try_def assms(1))
  then show ?thesis
    by (simp add: weather_flow_trace land_fallback_trace)
qed

lemma inland_geocode:
  "geocodePlace inland_services (ascii ''Kansas City'') [] =
     (Inr (Some kansas_city_place), [GeocodeCall (ascii ''Kansas City'')])"
  by (simp add: geocodePlace_def inland_services_def kansas_city_def kansas_city_place_def)

theorem land_fallback_original_coordinate_witness:
  "geocodePlace inland_services (ascii ''Kansas City'') [] =
     (Inr (Some kansas_city_place), [GeocodeCall (ascii ''Kansas City'')]) \<and>
   probe_at inland_services
     (documented_order (lat kansas_city_place) (lon kansas_city_place))
     [GeocodeCall (ascii ''Kansas City'')] 80 = Inr None \<and>
   snd (weather_flow inland_services (ascii ''Kansas City'') []) =
     [GeocodeCall (ascii ''Kansas City'')] @
     map marine_call (documented_order (lat kansas_city_place) (lon kansas_city_place)) @
     [LandCall (lat kansas_city_place) (lon kansas_city_place)]"
proof -
  have h: "\<forall>i<81. probe_at inland_services
              (documented_order (lat kansas_city_place) (lon kansas_city_place))
              [GeocodeCall (ascii ''Kansas City'')] i = Inr None"
    by (simp add: probe_at_def tryMarine_def inland_services_def)
  have h80: "probe_at inland_services
     (documented_order (lat kansas_city_place) (lon kansas_city_place))
     [GeocodeCall (ascii ''Kansas City'')] 80 = Inr None"
    using h by simp
  from land_fallback_original_coordinate [OF inland_geocode h] inland_geocode h80
  show ?thesis by blast
qed

subsection \<open>The storm warning\<close>

text \<open>
  Claim C5. For every marine reading that the weather flow accepts and formats, the reply
  contains the storm-warning line if and only if the wave height of the reading is a
  number greater than 3; for a wave height of at most 3, or one that is null or not a
  number, the line is absent. (The reply is formatted when none of the interpolated values
  throws on conversion to a string.)
\<close>

theorem marine_reply_storm_warning:
  assumes "geocodePlace sv nm tr = (Inr (Some p), tr1)"
    and "getMarineWeatherNear sv (lat p) (lon p) tr1 = (Inr (Some m), tr2)"
    and "\<not> nullish (wave m) \<or> \<not> nullish (wind m)"
    and "template (marine_reply p m) = Inr reply"
  shows "fst (weather_flow sv nm tr) = reply \<and>
         (Txt '' Storm warning: High waves expected!'' \<in> set reply \<longleftrightarrow>
            (\<exists>x. wave m = JNum x \<and> 3 < x)) \<and>
         ((\<exists>pre. reply = pre @ storm_warning) \<longleftrightarrow> (\<exists>x. wave m = JNum x \<and> 3 < x))"
proof -
  have r: "reply = marine_reply p m" using assms(4) by (rule template_Inr)
  have 1: "fst (weather_flow sv nm tr) = reply"
    using assms by (auto simp: weather_flow_def weather_try_def)
  have 2: "Txt '' Storm warning: High waves expected!'' \<in> set (marine_reply p m) \<longleftrightarrow>
            (\<exists>x. wave m = JNum x \<and> 3 < x)"
    by (cases "wave m") (auto simp: marine_reply_def alert_def storm_warning_def)
  have 3: "(\<exists>pre. marine_reply p m = pre @ storm_warning) \<longleftrightarrow> (\<exists>x. wave m = JNum x \<and> 3 < x)"
  proof
    assume "\<exists>pre. marine_reply p m = pre @ storm_warning"
    then have "Txt '' Storm warning: High waves expected!'' \<in> set (marine_reply p m)"
      by (auto simp: storm_warning_def)
    with 2 show "\<exists>x. wave m = JNum x \<and> 3 < x" by simp
  next
    assume "\<exists>x. wave m = JNum x \<and> 3 < x"
    then have "alert m = storm_warning" by (auto simp: alert_def)
    then show "\<exists>pre. marine_reply p m = pre @ storm_warning"
      unfolding marine_reply_def by (metis append.assoc)
  qed
  from 1 2 3 r show ?thesis by simp
qed

theorem marine_reply_storm_warning_witness:
  "fst (weather_flow coastal_services (ascii ''Rotterdam'') []) =
     marine_reply rotterdam_place example_reading \<and>
   wave example_reading = JNum 3.5 \<and>
   Txt '' Storm warning: High waves expected!'' \<in>
     set (marine_reply rotterdam_place example_reading)"
proof -
  have g: "getMarineWeatherNear coastal_services (lat rotterdam_place) (lon rotterdam_place)
              [GeocodeCall (ascii ''Rotterdam'')] =
     (Inr (Some example_reading),
      [GeocodeCall (ascii ''Rotterdam'')] @
      [MarineCall 51.9225 4.47917, MarineCall 51.9225 4.72917])"
    using coastal_resolver [of "[GeocodeCall (ascii ''Rotterdam'')]"]
    by (simp add: rotterdam_place_def)
  have a: "\<not> nullish (wave example_reading) \<or> \<not> nullish (wind example_reading)"
    by (simp add: example_reading_def)
  have w: "wave example_reading = JNum 3.5" by (simp add: example_reading_def)
  have c: "\<exists>x. wave example_reading = JNum x \<and> 3 < x"
    by (rule exI [of _ "3.5"]) (simp add: example_reading_def)
  from marine_reply_storm_warning [OF coastal_geocode g a coastal_template] w c
  show ?thesis by blast
qed



subsection \<open>The chat handler\<close>

text \<open>
  Claim C10. For every request body whose message field is absent, empty or made of
  white space only, the handler replies "Please type a question." at once: the reply does
  not depend on the two patterns, and no call is added to the trace, so neither the
  geocoder nor the marine probe nor the land-weather service is called.
\<close>

theorem chat_blank_message:
  assumes "opt_get body (ascii ''message'') = JUndefined \<or>
           (\<exists>s. opt_get body (ascii ''message'') = JStr s \<and> (\<forall>c\<in>set s. is_ws c))"
  shows "chat sv distMatch weatherMatch body tr = (Replied [Txt ''Please type a question.''], tr)"
  using assms by (auto simp: chat_def Let_def trim_blank)

theorem chat_blank_message_witness:
  "chat coastal_services match_mumbai_singapore match_rotterdam JUndefined [] =
     (Replied [Txt ''Please type a question.''], []) \<and>
   chat coastal_services match_mumbai_singapore match_rotterdam (JObj []) [] =
     (Replied [Txt ''Please type a question.''], []) \<and>
   chat coastal_services match_mumbai_singapore match_rotterdam
     (JObj [(ascii ''message'', JStr [])]) [] =
     (Replied [Txt ''Please type a question.''], []) \<and>
   chat coastal_services match_mumbai_singapore match_rotterdam
     (JObj [(ascii ''message'', JStr [0x20, 0x09, 0x3000, 0x0A])]) [] =
     (Replied [Txt ''Please type a question.''], [])"
proof -
  have a: "opt_get JUndefined (ascii ''message'') = JUndefined"
    and b: "opt_get (JObj []) (ascii ''message'') = JUndefined"
    by (simp_all add: opt_get_def)
  have c: "\<exists>s. opt_get (JObj [(ascii ''message'', JStr [])]) (ascii ''message'') = JStr s \<and>
             (\<forall>c\<in>set s. is_ws c)"
    by (simp add: opt_get_def)
  have d: "\<exists>s. opt_get (JObj [(ascii ''message'', JStr [0x20, 0x09, 0x3000, 0x0A])])
                 (ascii ''message'') = JStr s \<and> (\<forall>c\<in>set s. is_ws c)"
    by (simp add: opt_get_def is_ws_def)
  show ?thesis
    using chat_blank_message [OF disjI1, OF a]
      chat_blank_message [OF disjI1, OF b]
      chat_blank_message [OF disjI2, OF c]
      chat_blank_message [OF disjI2, OF d]
    by blast
qed

text \<open>
  Claim C7, as stated: for every request body the handler responds with a reply. For the
  body \<^verbatim>\<open>{"message": 5}\<close> the value \<^verbatim>\<open>req.body?.message || ""\<close> is the number 5,
  \<^verbatim>\<open>.trim\<close> is not a function of it, and the TypeError leaves the handler before
  any reply is sent.
\<close>

theorem chat_number_message_unhandled:
  "chat coastal_services no_match no_match (JObj [(ascii ''message'', JNum 5)]) [] =
     (Unhandled TypeError, [])"
  by (simp add: chat_def opt_get_def)

text \<open>
  Claim C7, amended. For every request body whose message field is absent, falsy or a
  string, and for every behaviour of the three services, the handler responds with a
  reply: every exception of a lookup is caught by the \<^verbatim>\<open>try\<close> block of its branch
  and answered with the error text of that branch.
\<close>

theorem chat_replies:
  assumes "\<not> truthy (opt_get body (ascii ''message'')) \<or>
           (\<exists>s. opt_get body (ascii ''message'') = JStr s)"
  shows "\<exists>reply. fst (chat sv distMatch weatherMatch body tr) = Replied reply"
  using assms
  by (auto simp: chat_def Let_def split: option.splits prod.splits)

lemma offline_weather_flow:
  "weather_flow offline_services (ascii ''Rotterdam'') [] =
     (weather_error, [GeocodeCall (ascii ''Rotterdam'')])"
  by (simp add: weather_flow_def weather_try_def geocodePlace_def offline_services_def)

lemma trim_example: "trim (ascii ''weather at Rotterdam'') = ascii ''weather at Rotterdam''"
  by (simp add: trim_def ascii_def is_ws_def)

lemma trim_example2: "trim (ascii ''Rotterdam'') = ascii ''Rotterdam''"
  by (simp add: trim_def ascii_def is_ws_def)

theorem chat_replies_witness:
  "(\<exists>s. opt_get (JObj [(ascii ''message'', JStr (ascii ''weather at Rotterdam''))])
          (ascii ''message'') = JStr s) \<and>
   (\<exists>reply. fst (chat offline_services no_match match_rotterdam
                  (JObj [(ascii ''message'', JStr (ascii ''weather at Rotterdam''))]) []) =
             Replied reply) \<and>
   chat offline_services no_match match_rotterdam
     (JObj [(ascii ''message'', JStr (ascii ''weather at Rotterdam''))]) [] =
     (Replied weather_error, [GeocodeCall (ascii ''Rotterdam'')])"
proof -
  have h: "\<exists>s. opt_get (JObj [(ascii ''message'', JStr (ascii ''weather at Rotterdam''))])
          (ascii ''message'') = JStr s"
    by (simp add: opt_get_def)
  have v: "chat offline_services no_match match_rotterdam
     (JObj [(ascii ''message'', JStr (ascii ''weather at Rotterdam''))]) [] =
     (Replied weather_error, [GeocodeCall (ascii ''Rotterdam'')])"
    by (simp add: chat_def opt_get_def trim_example trim_example2 no_match_def
          match_rotterdam_def offline_weather_flow)
  from chat_replies [OF disjI2, OF h] h v show ?thesis by blast
qed


end
